theory Spec2Isabelle
  imports Complex_Main "HOL-Library.Multiset"
begin

section \<open>Spacer calculator: the allocation engine\<close>

text \<open>
  A shallow embedding of the spacer allocation engine of
  \<^verbatim>\<open>BK_ShopReady_FinalWithToggles_UISpaced.py\<close>: the inventory class
  \<^verbatim>\<open>SpacerInventory\<close> and the methods \<^verbatim>\<open>find_spacer_combo\<close>,
  \<^verbatim>\<open>get_deflection_offset\<close> and \<^verbatim>\<open>calculate_spacers\<close> of the application class.

  Thicknesses are Python floats in the source. They are modelled as exact rationals: every
  decimal literal of the source (\<^verbatim>\<open>0.125\<close>, \<^verbatim>\<open>0.001\<close>) is the rational it denotes, sums
  are exact, and \<^verbatim>\<open>round(x, 4)\<close> rounds the exact value to four decimal places, ties to the
  even digit. Binary representation error of the floats is outside the model.
\<close>

subsection \<open>Counters\<close>

text \<open>
  A \<^verbatim>\<open>collections.Counter\<close> is a dictionary from keys to integer counts that reads a
  missing key as 0. It is an association list in insertion order; the first entry of a key
  is the one a lookup sees.
\<close>

type_synonym counter = "(rat \<times> int) list"

text \<open>\<^verbatim>\<open>c[k]\<close> and \<^verbatim>\<open>c.get(k, 0)\<close>\<close>

definition count_of :: "counter \<Rightarrow> rat \<Rightarrow> int" where
  "count_of c k = (case map_of c k of None \<Rightarrow> 0 | Some v \<Rightarrow> v)"

text \<open>\<^verbatim>\<open>k in c\<close>\<close>

definition has_key :: "counter \<Rightarrow> rat \<Rightarrow> bool" where
  "has_key c k = (map_of c k \<noteq> None)"

text \<open>\<^verbatim>\<open>c[k] = v\<close>: an existing key keeps its place, a new key goes to the end.\<close>

fun set_item :: "counter \<Rightarrow> rat \<Rightarrow> int \<Rightarrow> counter" where
  "set_item [] k v = [(k, v)]"
| "set_item ((k', v') # c) k v = (if k' = k then (k, v) # c else (k', v') # set_item c k v)"

text \<open>\<^verbatim>\<open>c[k] -= 1\<close>\<close>

definition decrement :: "counter \<Rightarrow> rat \<Rightarrow> counter" where
  "decrement c k = set_item c k (count_of c k - 1)"

text \<open>
  \<^verbatim>\<open>a + b\<close> on two counters: the counts are added and only the keys whose sum is positive
  are kept; the keys of \<^verbatim>\<open>a\<close> come first, then the keys that only \<^verbatim>\<open>b\<close> has.
\<close>

definition counter_add :: "counter \<Rightarrow> counter \<Rightarrow> counter" where
  "counter_add a b =
     filter (\<lambda>(k, v). 0 < v) (map (\<lambda>(k, v). (k, v + count_of b k)) a)
     @ filter (\<lambda>(k, v). \<not> has_key a k \<and> 0 < v) b"

text \<open>\<^verbatim>\<open>c.update(xs)\<close> with a list of keys: each occurrence adds one to its key.\<close>

fun counter_update :: "counter \<Rightarrow> rat list \<Rightarrow> counter" where
  "counter_update c [] = c"
| "counter_update c (x # xs) = counter_update (set_item c x (count_of c x + 1)) xs"

text \<open>\<^verbatim>\<open>[k for k, v in c.items() if v > 0]\<close>\<close>

definition positive_keys :: "counter \<Rightarrow> rat list" where
  "positive_keys c = map fst (filter (\<lambda>(k, v). 0 < v) c)"

text \<open>\<^verbatim>\<open>sorted(xs, reverse=True)\<close>\<close>

definition sorted_reverse :: "rat list \<Rightarrow> rat list" where
  "sorted_reverse xs = rev (sort xs)"

subsection \<open>Rounding\<close>

text \<open>Rounding to the nearest integer, a tie going to the even neighbour.\<close>

definition round_half_even :: "rat \<Rightarrow> int" where
  "round_half_even x =
     (let f = \<lfloor>x\<rfloor>; d = x - of_int f
      in if d < 1 / 2 then f
         else if 1 / 2 < d then f + 1
         else if even f then f else f + 1)"

text \<open>\<^verbatim>\<open>round(x, n)\<close>\<close>

definition py_round :: "rat \<Rightarrow> nat \<Rightarrow> rat" where
  "py_round x n = of_int (round_half_even (x * 10 ^ n)) / 10 ^ n"

subsection \<open>Combinations with replacement\<close>

text \<open>
  \<^verbatim>\<open>itertools.combinations_with_replacement(xs, r)\<close>: the tuples of length \<^verbatim>\<open>r\<close> whose
  positions in \<^verbatim>\<open>xs\<close> do not decrease, in lexicographic order of those positions.
\<close>

fun combinations_with_replacement :: "'a list \<Rightarrow> nat \<Rightarrow> 'a list list" where
  "combinations_with_replacement xs 0 = [[]]"
| "combinations_with_replacement [] (Suc r) = []"
| "combinations_with_replacement (x # xs) (Suc r) =
     map ((#) x) (combinations_with_replacement (x # xs) r)
     @ combinations_with_replacement xs (Suc r)"

subsection \<open>The combination search\<close>

text \<open>
  The two tests that \<^verbatim>\<open>find_spacer_combo\<close> applies to a candidate:
  \<^verbatim>\<open>(target - tol_minus) <= total <= (target + tol_plus)\<close> with
  \<^verbatim>\<open>total = round(sum(combo), 4)\<close>, and
  \<^verbatim>\<open>all(tmp[k] <= inv[k] for k in tmp)\<close> with \<^verbatim>\<open>tmp = Counter(combo)\<close>.
\<close>

definition in_band :: "rat \<Rightarrow> rat \<Rightarrow> rat \<Rightarrow> rat list \<Rightarrow> bool" where
  "in_band target tol_plus tol_minus combo =
     (let total = py_round (sum_list combo) 4
      in target - tol_minus \<le> total \<and> total \<le> target + tol_plus)"

definition within_stock :: "counter \<Rightarrow> rat list \<Rightarrow> bool" where
  "within_stock stock combo = (\<forall>k \<in> set combo. int (count_list combo k) \<le> count_of stock k)"

definition accepted :: "rat \<Rightarrow> rat \<Rightarrow> rat \<Rightarrow> counter \<Rightarrow> rat list \<Rightarrow> bool" where
  "accepted target tol_plus tol_minus stock combo =
     (in_band target tol_plus tol_minus combo \<and> within_stock stock combo)"

text \<open>The inner loop \<^verbatim>\<open>for combo in ...\<close>: the first candidate that passes is returned.\<close>

fun first_accepted :: "(rat list \<Rightarrow> bool) \<Rightarrow> rat list list \<Rightarrow> rat list option" where
  "first_accepted ok [] = None"
| "first_accepted ok (combo # rest) = (if ok combo then Some combo else first_accepted ok rest)"

text \<open>The outer loop \<^verbatim>\<open>for r in range(1, max_stack+1)\<close>, over the sizes still to try.\<close>

fun search_sizes :: "(rat list \<Rightarrow> bool) \<Rightarrow> rat list \<Rightarrow> nat list \<Rightarrow> rat list option" where
  "search_sizes ok keys [] = None"
| "search_sizes ok keys (r # rs) =
     (case first_accepted ok (combinations_with_replacement keys r) of
        Some combo \<Rightarrow> Some combo
      | None \<Rightarrow> search_sizes ok keys rs)"

text \<open>
  The two check boxes that \<^verbatim>\<open>find_spacer_combo\<close> reads through \<^verbatim>\<open>getattr\<close>; \<open>None\<close> is
  an attribute that does not exist, read as the default \<^verbatim>\<open>IntVar(value=1)\<close>.
\<close>

record toggles =
  minimize_shims_var :: "int option"
  smart_balance_var :: "int option"

text \<open>
  \<^verbatim>\<open>find_spacer_combo\<close>. The source returns \<^verbatim>\<open>(list(combo), True)\<close> from the metal pass,
  \<^verbatim>\<open>(list(combo), False)\<close> from the pass over both pools and \<^verbatim>\<open>(None, None)\<close> otherwise;
  the last is \<open>None\<close> here. \<^verbatim>\<open>max_stack\<close> is a count: \<^verbatim>\<open>range(1, max_stack+1)\<close> is empty
  when it is 0.
\<close>

definition find_spacer_combo ::
  "'a toggles_scheme \<Rightarrow> rat \<Rightarrow> rat \<Rightarrow> rat \<Rightarrow> counter \<Rightarrow> counter \<Rightarrow> bool \<Rightarrow> nat
     \<Rightarrow> (rat list \<times> bool) option"
where
  "find_spacer_combo self target tol_plus tol_minus metal_inv plastic_inv prefer_metal max_stack =
     (let minimize_shims = (case minimize_shims_var self of None \<Rightarrow> 1 | Some v \<Rightarrow> v);
          smart_balance = (case smart_balance_var self of None \<Rightarrow> 1 | Some v \<Rightarrow> v);
          keys_metal = sorted_reverse (positive_keys metal_inv);
          keys_all = sorted_reverse (positive_keys (counter_add metal_inv plastic_inv));
          second = (case search_sizes
                           (accepted target tol_plus tol_minus (counter_add metal_inv plastic_inv))
                           keys_all [1 ..< max_stack + 1] of
                      Some combo \<Rightarrow> Some (combo, False)
                    | None \<Rightarrow> None)
      in if prefer_metal
         then (case search_sizes (accepted target tol_plus tol_minus metal_inv)
                      keys_metal [1 ..< max_stack + 1] of
                 Some combo \<Rightarrow> Some (combo, True)
               | None \<Rightarrow> second)
         else second)"

subsection \<open>Deflection\<close>

text \<open>
  \<^verbatim>\<open>get_deflection_offset\<close>. Its argument \<^verbatim>\<open>thickness\<close> is already a float at the only
  call, so \<^verbatim>\<open>float(thickness)\<close> does not raise and the \<^verbatim>\<open>except\<close> branch is not taken.
\<close>

definition get_deflection_offset :: "string \<Rightarrow> rat \<Rightarrow> rat" where
  "get_deflection_offset material thickness =
     (if material = ''Aluminum'' then 5 / 10000
      else if material = ''Galvanized'' \<or> material = ''Stainless''
           then (if 30 / 1000 < thickness then 15 / 10000 else 10 / 10000)
      else 0)"

subsection \<open>The application state\<close>

text \<open>
  The counters are mutable objects, and \<^verbatim>\<open>calculate_spacers\<close> works on copies of the two
  inventory counters. The store is a list of counter objects; a reference is a position in
  it. \<^verbatim>\<open>c.copy()\<close> puts a new object at the end of the store.

  The application object extends the two check boxes with the fields that the engine
  reads and writes: the two counters of its \<^verbatim>\<open>SpacerInventory\<close>, the contents of the
  inventory file, the material menu, the deflection check box, the two lists of layout
  lines, the usage tally and the settings dictionary.
\<close>

datatype line =
  Shoulder rat "rat list"
| Cut_Female nat rat "rat list"
| Cut_Male nat rat "rat list"

text \<open>
  The layout lines are formatted strings in the source, as in
  \<^verbatim>\<open>f"Cut {i} Male ({male_target:.3f}): {', '.join(map(str, male_combo))}"\<close>; a \<open>line\<close>
  holds the values that the string is formatted from.
\<close>

datatype error =
  Parse_Error
| No_Shoulder
| No_Female rat
| No_Male rat
| No_Inventory_Left rat

record app = toggles +
  heap :: "counter list"
  inventory_metal :: nat
  inventory_plastic :: nat
  inventory_file :: "counter \<times> counter"
  material_var :: string
  auto_deflect_var :: int
  top_lines :: "line list"
  bottom_lines :: "line list"
  used_spacers :: counter
  settings :: "(string \<times> rat) list"

text \<open>
  The entry fields of the form after their conversion by \<^verbatim>\<open>float\<close> and \<^verbatim>\<open>int\<close>, the
  optional ones after \<^verbatim>\<open>or 0\<close> and \<^verbatim>\<open>or 0.005\<close>. The cut field is the list of its
  \<^verbatim>\<open>size x count\<close> entries, a bare size having the count 1.
\<close>

record job =
  cut_sizes :: "(rat \<times> int) list"
  thickness_in :: rat
  clearance_percent :: rat
  knife_female :: rat
  knife_male :: rat
  coil_width_in :: rat
  coil_weight_lbs :: rat
  width_tol_plus :: rat
  width_tol_minus :: rat

subsection \<open>The inventory ledger\<close>

text \<open>
  The loop of \<^verbatim>\<open>SpacerInventory.use_spacers\<close> on the store: \<open>m\<close> and \<open>p\<close> are
  \<^verbatim>\<open>self.metal\<close> and \<^verbatim>\<open>self.plastic\<close>. The \<^verbatim>\<open>raise\<close> leaves the loop with the store as
  it is at that moment.
\<close>

fun use_loop :: "nat \<Rightarrow> nat \<Rightarrow> rat list \<Rightarrow> counter list \<Rightarrow> counter list \<times> error option" where
  "use_loop m p [] h = (h, None)"
| "use_loop m p (sz # rest) h =
     (if 0 < count_of (h ! m) sz then use_loop m p rest (h[m := decrement (h ! m) sz])
      else if 0 < count_of (h ! p) sz then use_loop m p rest (h[p := decrement (h ! p) sz])
      else (h, Some (No_Inventory_Left sz)))"


text \<open>\<^verbatim>\<open>check_availability\<close>\<close>

definition check_availability :: "rat list \<Rightarrow> 'a app_scheme \<Rightarrow> bool" where
  "check_availability combo self =
     (let inv = counter_add (heap self ! inventory_metal self) (heap self ! inventory_plastic self)
      in \<forall>sz \<in> set combo. \<not> count_of inv sz < int (count_list combo sz))"

subsection \<open>The calculation run\<close>

text \<open>Lines 522 to 524 of \<^verbatim>\<open>calculate_spacers\<close>: the offset of the run.\<close>

definition deflect_offset :: "'a app_scheme \<Rightarrow> rat \<Rightarrow> rat" where
  "deflect_offset self thickness =
     (if auto_deflect_var self \<noteq> 0 then get_deflection_offset (material_var self) thickness
      else 0)"

text \<open>
  Lines 535 to 539: the shoulder combination is taken from the working counters
  \<^verbatim>\<open>job_metal\<close> (\<open>jm\<close>) and \<^verbatim>\<open>job_plastic\<close> (\<open>jp\<close>).
\<close>

fun take_shoulder :: "nat \<Rightarrow> nat \<Rightarrow> rat list \<Rightarrow> counter list \<Rightarrow> counter list" where
  "take_shoulder jm jp [] h = h"
| "take_shoulder jm jp (sz # rest) h =
     take_shoulder jm jp rest
       (if has_key (h ! jm) sz then h[jm := decrement (h ! jm) sz]
        else if has_key (h ! jp) sz then h[jp := decrement (h ! jp) sz]
        else h)"

text \<open>Lines 551 to 555 and 567 to 571: a female or male combination is taken.\<close>

fun take_cut :: "nat \<Rightarrow> nat \<Rightarrow> rat list \<Rightarrow> counter list \<Rightarrow> counter list" where
  "take_cut jm jp [] h = h"
| "take_cut jm jp (sz # rest) h =
     take_cut jm jp rest
       (if has_key (h ! jm) sz \<and> 0 < count_of (h ! jm) sz then h[jm := decrement (h ! jm) sz]
        else if has_key (h ! jp) sz \<and> 0 < count_of (h ! jp) sz then h[jp := decrement (h ! jp) sz]
        else h)"

text \<open>The body of the loop over the cuts, for cut number \<open>i\<close> of width \<open>width\<close>.\<close>

definition process_cut ::
  "rat \<Rightarrow> rat \<Rightarrow> rat \<Rightarrow> rat \<Rightarrow> rat \<Rightarrow> rat \<Rightarrow> nat \<Rightarrow> nat \<Rightarrow> nat \<Rightarrow> rat \<Rightarrow> 'a app_scheme
     \<Rightarrow> 'a app_scheme \<times> error option"
where
  "process_cut tol_plus tol_minus kf km clearance offset jm jp i width self =
     (let female_on_top = (i mod 2 = 1)
      in case find_spacer_combo self width tol_plus tol_minus (heap self ! jm) (heap self ! jp) True 8 of
           None \<Rightarrow> (self, Some (No_Female width))
         | Some (female_combo, is_metal) \<Rightarrow>
             let s1 = self\<lparr>heap := take_cut jm jp female_combo (heap self),
                            used_spacers := counter_update (used_spacers self) female_combo\<rparr>;
                 female_sum = sum_list female_combo + offset;
                 male_target = female_sum - (kf + km + 2 * clearance)
             in case find_spacer_combo s1 male_target (1 / 1000) (1 / 1000)
                       (heap s1 ! jm) (heap s1 ! jp) True 8 of
                  None \<Rightarrow> (s1, Some (No_Male width))
                | Some (male_combo, _) \<Rightarrow>
                    let s2 = s1\<lparr>heap := take_cut jm jp male_combo (heap s1),
                                 used_spacers := counter_update (used_spacers s1) male_combo\<rparr>
                    in if female_on_top
                       then (s2\<lparr>top_lines := top_lines s2 @ [Cut_Female i female_sum female_combo],
                                 bottom_lines := bottom_lines s2 @ [Cut_Male i male_target male_combo]\<rparr>,
                             None)
                       else (s2\<lparr>top_lines := top_lines s2 @ [Cut_Male i male_target male_combo],
                                 bottom_lines := bottom_lines s2 @ [Cut_Female i female_sum female_combo]\<rparr>,
                             None))"

text \<open>\<^verbatim>\<open>for i, cut in enumerate(cuts, 1)\<close>: an error ends the loop.\<close>

fun cut_loop ::
  "rat \<Rightarrow> rat \<Rightarrow> rat \<Rightarrow> rat \<Rightarrow> rat \<Rightarrow> rat \<Rightarrow> nat \<Rightarrow> nat \<Rightarrow> nat \<Rightarrow> rat list \<Rightarrow> 'a app_scheme
     \<Rightarrow> 'a app_scheme \<times> error option"
where
  "cut_loop tol_plus tol_minus kf km clearance offset jm jp i [] self = (self, None)"
| "cut_loop tol_plus tol_minus kf km clearance offset jm jp i (width # cuts) self =
     (case process_cut tol_plus tol_minus kf km clearance offset jm jp i width self of
        (s, Some e) \<Rightarrow> (s, Some e)
      | (s, None) \<Rightarrow> cut_loop tol_plus tol_minus kf km clearance offset jm jp (Suc i) cuts s)"

text \<open>
  \<^verbatim>\<open>calculate_spacers\<close>. The argument \<open>form\<close> is \<open>None\<close> when a conversion of an entry
  field raises. The \<^verbatim>\<open>except\<close> clause reports the error and keeps the state that the run
  has reached. The redrawing of the summary and of the layout after a complete run is not
  part of the model.
\<close>

definition calculate_spacers :: "job option \<Rightarrow> 'a app_scheme \<Rightarrow> 'a app_scheme \<times> error option" where
  "calculate_spacers form self =
     (let s0 = self\<lparr>top_lines := [], bottom_lines := [], used_spacers := []\<rparr>
      in case form of
           None \<Rightarrow> (s0, Some Parse_Error)
         | Some j \<Rightarrow>
             let cuts = concat (map (\<lambda>(size, count). replicate (nat count) size) (cut_sizes j));
                 total_cut_width = sum_list (map (\<lambda>(size, count). size * of_int count) (cut_sizes j));
                 thickness = thickness_in j;
                 clearance = thickness * (clearance_percent j / 100);
                 kf = knife_female j;
                 km = knife_male j;
                 offset = deflect_offset s0 thickness;
                 jm = length (heap s0);
                 jp = Suc (length (heap s0));
                 s1 = s0\<lparr>heap := heap s0 @ [heap s0 ! inventory_metal s0, heap s0 ! inventory_plastic s0]\<rparr>;
                 shoulder_clearance = clearance + kf
             in case find_spacer_combo s1 shoulder_clearance (1 / 1000) (1 / 1000)
                       (heap s1 ! jm) (heap s1 ! jp) True 8 of
                  None \<Rightarrow> (s1, Some No_Shoulder)
                | Some (s_combo, s_metal) \<Rightarrow>
                    let s2 = s1\<lparr>heap := take_shoulder jm jp s_combo (heap s1),
                                 used_spacers := counter_update (used_spacers s1) s_combo,
                                 bottom_lines := bottom_lines s1 @ [Shoulder shoulder_clearance s_combo]\<rparr>
                    in case cut_loop (width_tol_plus j) (width_tol_minus j) kf km clearance offset
                              jm jp 1 cuts s2 of
                         (s3, Some e) \<Rightarrow> (s3, Some e)
                       | (s3, None) \<Rightarrow>
                           let scrap = (if coil_width_in j \<noteq> 0 then coil_width_in j - total_cut_width
                                        else 0)
                           in (s3\<lparr>settings :=
                                     [(''thickness'', thickness),
                                      (''clearance'', clearance_percent j),
                                      (''knife_female'', kf),
                                      (''knife_male'', km),
                                      (''coil_width'', coil_width_in j),
                                      (''coil_weight'', coil_weight_lbs j),
                                      (''scrap'', py_round scrap 3)]\<rparr>,
                               None))"

text \<open>
  The application after \<^verbatim>\<open>__init__\<close>, for an inventory file that holds the counters
  \<open>metal\<close> and \<open>plastic\<close>: \<^verbatim>\<open>SpacerInventory.load\<close> builds the two counters as two
  new objects, the lists and the tally start empty, and the three check boxes are on.
\<close>

definition init_app :: "counter \<Rightarrow> counter \<Rightarrow> app" where
  "init_app metal plastic =
     \<lparr>minimize_shims_var = Some 1, smart_balance_var = Some 1,
      heap = [metal, plastic], inventory_metal = 0, inventory_plastic = 1,
      inventory_file = (metal, plastic),
      material_var = ''Aluminum'', auto_deflect_var = 1,
      top_lines = [], bottom_lines = [], used_spacers = [], settings = []\<rparr>"

section \<open>Properties\<close>

subsection \<open>The two loops of the search\<close>




lemma cwr_length: "c \<in> set (combinations_with_replacement keys r) \<Longrightarrow> length c = r"
  by (induction keys r arbitrary: c rule: combinations_with_replacement.induct) auto







lemma first_accepted_Some: "first_accepted ok xs = Some c \<Longrightarrow> ok c \<and> c \<in> set xs"
  by (induction xs) (auto split: if_splits)


lemma search_sizes_Some:
  "search_sizes ok keys rs = Some c \<Longrightarrow> ok c \<and> length c \<in> set rs"
  by (induction rs) (auto split: option.splits dest!: first_accepted_Some dest: cwr_length)






lemma find_spacer_combo_cases:
  assumes "find_spacer_combo self target tp tm metal plastic pm ms = Some (combo, pure)"
  shows "(pure \<and> pm
            \<and> search_sizes (accepted target tp tm metal)
                  (sorted_reverse (positive_keys metal)) [1 ..< ms + 1] = Some combo)
         \<or> (\<not> pure
            \<and> (pm \<longrightarrow> search_sizes (accepted target tp tm metal)
                        (sorted_reverse (positive_keys metal)) [1 ..< ms + 1] = None)
            \<and> search_sizes (accepted target tp tm (counter_add metal plastic))
                  (sorted_reverse (positive_keys (counter_add metal plastic))) [1 ..< ms + 1]
                = Some combo)"
  using assms unfolding find_spacer_combo_def Let_def
  by (auto split: if_splits option.splits simp del: upt_Suc)



subsection \<open>The search returns an accepted combination\<close>

text \<open>
  Claim C1. Whenever \<^verbatim>\<open>find_spacer_combo\<close> returns a combination, the sum of the combination
  rounded to four places lies between \<open>target - tol_minus\<close> and \<open>target + tol_plus\<close>, and
  no thickness occurs in it more often than the view it was drawn from holds: the metal
  counter when the result is flagged pure, the sum of both counters otherwise.
\<close>

theorem find_spacer_combo_sound:
  assumes "find_spacer_combo self target tp tm metal plastic pm ms = Some (combo, pure)"
  shows "target - tm \<le> py_round (sum_list combo) 4
         \<and> py_round (sum_list combo) 4 \<le> target + tp
         \<and> (\<forall>k \<in> set combo.
               int (count_list combo k)
                 \<le> count_of (if pure then metal else counter_add metal plastic) k)"
proof -
  have "accepted target tp tm (if pure then metal else counter_add metal plastic) combo"
    using find_spacer_combo_cases[OF assms] search_sizes_Some by (cases pure) auto
  then show ?thesis by (simp add: accepted_def in_band_def within_stock_def Let_def)
qed

theorem find_spacer_combo_sound_witness:
  "find_spacer_combo \<lparr>minimize_shims_var = Some 1, smart_balance_var = Some 1\<rparr>
     (1 / 8) 0 0 [(1 / 8, 0)] [(1 / 8, 5)] True 8 = Some ([1 / 8], False)
   \<and> 1 / 8 - 0 \<le> py_round (sum_list [1 / 8]) 4
   \<and> py_round (sum_list [1 / 8]) 4 \<le> 1 / 8 + 0
   \<and> int (count_list [1 / 8 :: rat] (1 / 8))
       \<le> count_of (counter_add [(1 / 8, 0)] [(1 / 8, 5)]) (1 / 8)"
proof -
  have h: "find_spacer_combo \<lparr>minimize_shims_var = Some 1, smart_balance_var = Some 1\<rparr>
             (1 / 8) 0 0 [(1 / 8, 0)] [(1 / 8, 5)] True 8 = Some ([1 / 8], False)"
    by code_simp
  from find_spacer_combo_sound[OF h] h show ?thesis by simp
qed

subsection \<open>Minimal cardinality\<close>




subsection \<open>Material preference\<close>



subsection \<open>Order of the enumeration\<close>



subsection \<open>The deflection offset\<close>

text \<open>
  Claim C9. The offset of a run is 0 when the deflection check box is off. When it is on,
  the offset is 0.0005 for Aluminum, 0.0015 for Galvanized or Stainless thicker than 0.030
  and 0.0010 for them otherwise, and 0 for any other material. It is a function of the
  check box, the material and the thickness alone.
\<close>

theorem deflection_offset_table:
  "deflect_offset self thickness =
     (if auto_deflect_var self = 0 then 0
      else if material_var self = ''Aluminum'' then 5 / 10000
      else if material_var self = ''Galvanized'' \<or> material_var self = ''Stainless''
           then (if 3 / 100 < thickness then 15 / 10000 else 10 / 10000)
      else 0)
   \<and> get_deflection_offset ''Aluminum'' (4 / 100) = 5 / 10000
   \<and> get_deflection_offset ''Stainless'' (4 / 100) = 15 / 10000"
  by (simp add: deflect_offset_def get_deflection_offset_def)

subsection \<open>The unused check boxes\<close>

text \<open>
  Claim C10. The result of \<^verbatim>\<open>find_spacer_combo\<close>, the combination and its flag, is the same
  for any two application states that are given the same target, tolerances, counters,
  preference and \<open>max_stack\<close>, whatever the two check boxes Minimize Plastic Shims and
  Smart Inventory Balancing hold.
\<close>

theorem toggles_noninterference:
  "find_spacer_combo s1 target tp tm metal plastic pm ms
     = find_spacer_combo s2 target tp tm metal plastic pm ms"
  by (simp add: find_spacer_combo_def Let_def)

theorem toggles_noninterference_witness:
  "find_spacer_combo \<lparr>minimize_shims_var = Some 0, smart_balance_var = None\<rparr>
     (3 / 4) (1 / 1000) (1 / 1000) [(1 / 2, 2), (1 / 4, 1)] [] True 8
   = Some ([1 / 2, 1 / 4], True)"
proof -
  have h: "find_spacer_combo \<lparr>minimize_shims_var = Some 1, smart_balance_var = Some 1\<rparr>
             (3 / 4) (1 / 1000) (1 / 1000) [(1 / 2, 2), (1 / 4, 1)] [] True 8
           = Some ([1 / 2, 1 / 4], True)"
    by code_simp
  show ?thesis
    using toggles_noninterference[of
            "\<lparr>minimize_shims_var = Some 0, smart_balance_var = None\<rparr>"
            "3 / 4" "1 / 1000" "1 / 1000" "[(1 / 2, 2), (1 / 4, 1)]" "[]" True 8
            "\<lparr>minimize_shims_var = Some 1, smart_balance_var = Some 1\<rparr>"] h
    by simp
qed

subsection \<open>Reserving a combination in the ledger\<close>

lemma map_of_set_item: "map_of (set_item c k v) = (map_of c)(k \<mapsto> v)"
  by (induction c) (auto simp: fun_eq_iff)

lemma count_of_set_item: "count_of (set_item c k v) k' = (if k' = k then v else count_of c k')"
  by (simp add: count_of_def map_of_set_item)

lemma count_of_decrement:
  "count_of (decrement c k) k' = (if k' = k then count_of c k - 1 else count_of c k')"
  by (simp add: decrement_def count_of_set_item)

lemma use_loop_length: "use_loop m p combo h = (h', r) \<Longrightarrow> length h' = length h"
  by (induction combo arbitrary: h) (auto split: if_splits)







subsection \<open>Counts below zero\<close>

text \<open>
  The guarded loops keep counts that are not negative that way: the loop that takes a female
  or male combination, and the loop of \<^verbatim>\<open>use_spacers\<close>.
\<close>

lemma take_cut_nonneg:
  assumes "jm < length h" "jp < length h"
    and "\<And>k. 0 \<le> count_of (h ! jm) k" "\<And>k. 0 \<le> count_of (h ! jp) k"
  shows "0 \<le> count_of (take_cut jm jp combo h ! jm) k \<and> 0 \<le> count_of (take_cut jm jp combo h ! jp) k"
  using assms
proof (induction combo arbitrary: h)
  case Nil
  then show ?case by simp
next
  case (Cons sz rest)
  let ?h1 = "if has_key (h ! jm) sz \<and> 0 < count_of (h ! jm) sz then h[jm := decrement (h ! jm) sz]
             else if has_key (h ! jp) sz \<and> 0 < count_of (h ! jp) sz then h[jp := decrement (h ! jp) sz]
             else h"
  have len: "jm < length ?h1" "jp < length ?h1" using Cons.prems(1,2) by auto
  have m: "\<And>k. 0 \<le> count_of (?h1 ! jm) k"
    using Cons.prems by (auto simp: count_of_decrement nth_list_update)
  have p: "\<And>k. 0 \<le> count_of (?h1 ! jp) k"
    using Cons.prems by (auto simp: count_of_decrement nth_list_update)
  from Cons.IH[OF len m p] show ?case by simp
qed

lemma use_loop_nonneg:
  assumes "m < length h" "p < length h" "use_loop m p combo h = (h', r)"
    and "\<And>k. 0 \<le> count_of (h ! m) k" "\<And>k. 0 \<le> count_of (h ! p) k"
  shows "0 \<le> count_of (h' ! m) k \<and> 0 \<le> count_of (h' ! p) k"
  using assms
proof (induction combo arbitrary: h)
  case Nil
  then show ?case by simp
next
  case (Cons sz rest)
  let ?h1 = "if 0 < count_of (h ! m) sz then h[m := decrement (h ! m) sz]
             else if 0 < count_of (h ! p) sz then h[p := decrement (h ! p) sz]
             else h"
  show ?case
  proof (cases "0 < count_of (h ! m) sz \<or> 0 < count_of (h ! p) sz")
    case True
    then have step: "use_loop m p rest ?h1 = (h', r)" using Cons.prems(3) by auto
    have len: "m < length ?h1" "p < length ?h1" using Cons.prems(1,2) by auto
    have a: "\<And>k. 0 \<le> count_of (?h1 ! m) k"
      using Cons.prems by (auto simp: count_of_decrement nth_list_update)
    have b: "\<And>k. 0 \<le> count_of (?h1 ! p) k"
      using Cons.prems by (auto simp: count_of_decrement nth_list_update)
    from Cons.IH[OF len step a b] show ?thesis .
  next
    case False
    then have "h' = h" using Cons.prems(3) by auto
    then show ?thesis using Cons.prems(4,5) by simp
  qed
qed

text \<open>
  Claim C5. No count of a working counter is negative after a combination is taken. The
  loops that take a female or a male combination, and \<^verbatim>\<open>use_spacers\<close>, decrement a count
  only when it is positive. The loop that takes the shoulder combination tests only that
  the thickness is a key of the metal counter. With one metal and one plastic piece of 0.250
  and a shoulder of 0.500, the search returns 0.250, 0.250 from both pools and the loop
  takes both pieces from the metal counter, whose count is -1 afterwards.
\<close>

theorem shoulder_stage_negative_count:
  "count_of
     (heap (fst (calculate_spacers
                   (Some \<lparr>cut_sizes = [(1 / 4, 1)], thickness_in = 15 / 1000, clearance_percent = 0,
              knife_female = 1 / 2, knife_male = 1 / 2, coil_width_in = 0, coil_weight_lbs = 0,
              width_tol_plus = 5 / 1000, width_tol_minus = 5 / 1000\<rparr>)
                   (init_app [(1 / 4, 1)] [(1 / 4, 1)]))) ! 2)
     (1 / 4) = - 1"
  by code_simp

subsection \<open>The inventory counters after a run\<close>


lemma take_shoulder_frame:
  "n \<le> jm \<Longrightarrow> n \<le> jp \<Longrightarrow> take n (take_shoulder jm jp combo h) = take n h"
  by (induction combo arbitrary: h) auto

lemma take_cut_frame:
  "n \<le> jm \<Longrightarrow> n \<le> jp \<Longrightarrow> take n (take_cut jm jp combo h) = take n h"
  by (induction combo arbitrary: h) auto

lemma process_cut_frame:
  assumes "process_cut tp tm kf km cl off jm jp i w s = (s', r)" "n \<le> jm" "n \<le> jp"
  shows "take n (heap s') = take n (heap s) \<and> inventory_metal s' = inventory_metal s
         \<and> inventory_plastic s' = inventory_plastic s \<and> inventory_file s' = inventory_file s"
  using assms unfolding process_cut_def Let_def
  by (auto split: option.splits prod.splits if_splits simp: take_cut_frame)

lemma cut_loop_frame:
  assumes "cut_loop tp tm kf km cl off jm jp i cuts s = (s', r)" "n \<le> jm" "n \<le> jp"
  shows "take n (heap s') = take n (heap s) \<and> inventory_metal s' = inventory_metal s
         \<and> inventory_plastic s' = inventory_plastic s \<and> inventory_file s' = inventory_file s"
  using assms
proof (induction cuts arbitrary: i s)
  case Nil
  then show ?case by simp
next
  case (Cons w cuts)
  obtain s1 r1 where p: "process_cut tp tm kf km cl off jm jp i w s = (s1, r1)"
    by (cases "process_cut tp tm kf km cl off jm jp i w s")
  note f = process_cut_frame[OF p Cons.prems(2,3)]
  show ?case
  proof (cases r1)
    case None
    then have "cut_loop tp tm kf km cl off jm jp (Suc i) cuts s1 = (s', r)"
      using Cons.prems(1) p by simp
    from Cons.IH[OF this Cons.prems(2,3)] f show ?thesis by simp
  next
    case (Some e)
    then have "s' = s1" using Cons.prems(1) p by simp
    with f show ?thesis by simp
  qed
qed


text \<open>
  Claim C7. A run of \<^verbatim>\<open>calculate_spacers\<close> writes only to the copies that it makes of the
  two inventory counters. Whether the run completes or ends in an error, every counter
  object that existed before the run is unchanged, the application still refers to the same
  two objects as its metal and plastic inventory, they hold what they held before, and the
  inventory file is not written.
\<close>

theorem calculate_spacers_frame:
  assumes "calculate_spacers form self = (s', r)"
  shows "take (length (heap self)) (heap s') = heap self
         \<and> inventory_metal s' = inventory_metal self
         \<and> inventory_plastic s' = inventory_plastic self
         \<and> inventory_file s' = inventory_file self
         \<and> (inventory_metal self < length (heap self)
              \<longrightarrow> heap s' ! inventory_metal s' = heap self ! inventory_metal self)
         \<and> (inventory_plastic self < length (heap self)
              \<longrightarrow> heap s' ! inventory_plastic s' = heap self ! inventory_plastic self)"
proof -
  have main: "take (length (heap self)) (heap s') = heap self
         \<and> inventory_metal s' = inventory_metal self
         \<and> inventory_plastic s' = inventory_plastic self
         \<and> inventory_file s' = inventory_file self"
    using assms unfolding calculate_spacers_def Let_def
    by (auto split: option.splits prod.splits
             dest!: cut_loop_frame[where n = "length (heap self)"]
             simp: take_shoulder_frame)
  have nth: "\<And>a. a < length (heap self) \<Longrightarrow> heap s' ! a = heap self ! a"
  proof -
    fix a assume a: "a < length (heap self)"
    have "take (length (heap self)) (heap s') ! a = heap s' ! a" using a by simp
    with main show "heap s' ! a = heap self ! a" by simp
  qed
  show ?thesis using main nth by simp
qed

theorem calculate_spacers_frame_witness:
  "snd (calculate_spacers
          (Some \<lparr>cut_sizes = [(1, 1)], thickness_in = 15 / 1000, clearance_percent = 0,
              knife_female = 1 / 4, knife_male = 1 / 4, coil_width_in = 6, coil_weight_lbs = 0,
              width_tol_plus = 5 / 1000, width_tol_minus = 5 / 1000\<rparr>)
          (init_app [(1, 1), (1 / 2, 1), (1 / 4, 1)] [])) = None
   \<and> heap (fst (calculate_spacers
                  (Some \<lparr>cut_sizes = [(1, 1)], thickness_in = 15 / 1000, clearance_percent = 0,
              knife_female = 1 / 4, knife_male = 1 / 4, coil_width_in = 6, coil_weight_lbs = 0,
              width_tol_plus = 5 / 1000, width_tol_minus = 5 / 1000\<rparr>)
                  (init_app [(1, 1), (1 / 2, 1), (1 / 4, 1)] [])))
         ! inventory_metal (fst (calculate_spacers
                  (Some \<lparr>cut_sizes = [(1, 1)], thickness_in = 15 / 1000, clearance_percent = 0,
              knife_female = 1 / 4, knife_male = 1 / 4, coil_width_in = 6, coil_weight_lbs = 0,
              width_tol_plus = 5 / 1000, width_tol_minus = 5 / 1000\<rparr>)
                  (init_app [(1, 1), (1 / 2, 1), (1 / 4, 1)] [])))
       = heap (init_app [(1, 1), (1 / 2, 1), (1 / 4, 1)] []) ! inventory_metal (init_app [(1, 1), (1 / 2, 1), (1 / 4, 1)] [])"
proof -
  let ?A = "init_app [(1, 1), (1 / 2, 1), (1 / 4, 1)] []"
  let ?F = "Some \<lparr>cut_sizes = [(1, 1)], thickness_in = 15 / 1000, clearance_percent = 0,
              knife_female = 1 / 4, knife_male = 1 / 4, coil_width_in = 6, coil_weight_lbs = 0,
              width_tol_plus = 5 / 1000, width_tol_minus = 5 / 1000\<rparr>"
  have r: "snd (calculate_spacers ?F ?A) = None" by code_simp
  have e: "calculate_spacers ?F ?A = (fst (calculate_spacers ?F ?A), snd (calculate_spacers ?F ?A))"
    by simp
  have h: "inventory_metal ?A < length (heap ?A)" by (simp add: init_app_def)
  from calculate_spacers_frame[OF e] h r show ?thesis by blast
qed

subsection \<open>The male target\<close>








end
